theory Spec2Isabelle
  imports Main
begin

section \<open>The gersemi formatter bridge of \<^verbatim>\<open>extension.ts\<close>\<close>

text \<open>
  The extension has three pieces of code: \<^verbatim>\<open>runGersemi\<close> (the bridge to the external
  formatter), \<^verbatim>\<open>GersemiFormatter.provideDocumentFormattingEdits\<close> (the automatic provider)
  and the callback of the command \<^verbatim>\<open>gersemi.formatDocument\<close>. Everything they touch
  outside themselves belongs to the host (VS Code and Node.js): the workspace folders, the
  file system, the child process, the notification area and the editor. The host is a
  parameter of the model, and what the code does to it is returned as a value.
\<close>

subsection \<open>Host values\<close>

text \<open>
  A JavaScript promise is pending, fulfilled with a value, or rejected with a reason.
\<close>

datatype 'a promise = Pending | Resolved 'a | Rejected string

text \<open>
  What a spawned child hands to the listeners, in the order of delivery. The payload of a
  \<^verbatim>\<open>'data'\<close> event is a buffer \<open>'b\<close>; the code of \<^verbatim>\<open>'exit'\<close> and \<^verbatim>\<open>'close'\<close> is
  \<^verbatim>\<open>number | null\<close> (null when a signal ended the process; the signal argument itself
  is not read by the extension). \<^verbatim>\<open>'error'\<close> on the child is the event Node.js emits
  when the process could not be launched; \<^verbatim>\<open>'error'\<close> on one of its three streams is
  what a failed write to standard input (\<^verbatim>\<open>EPIPE\<close>) or a failed read gives.
\<close>

datatype stream = Stdin | Stdout | Stderr

datatype 'b child_event =
    StdoutData 'b
  | StderrData 'b
  | Exit "int option"
  | Close "int option"
  | ChildError string
  | StreamError stream string

type_synonym uri = string

text \<open>
  A \<^verbatim>\<open>vscode.TextDocument\<close> with the two members the extension reads, and a
  \<^verbatim>\<open>vscode.TextEditor\<close> with its document. The elements of a string are the units its
  \<^verbatim>\<open>length\<close> counts.
\<close>

record document =
  fileName :: string
  getText :: string

record editor =
  document :: document

text \<open>
  The host as the extension sees it. \<open>workspaceFolders\<close> is
  \<^verbatim>\<open>vscode.workspace.workspaceFolders\<close> (\<^verbatim>\<open>undefined\<close> or an array; a folder is
  represented by its \<^verbatim>\<open>uri\<close>), \<open>joinPath\<close> and \<open>fsPath\<close> are \<^verbatim>\<open>vscode.Uri.joinPath\<close>
  and \<^verbatim>\<open>Uri.fsPath\<close>, \<open>existsSync\<close> is \<^verbatim>\<open>fs.existsSync\<close>, \<open>toString\<close> is
  \<^verbatim>\<open>Buffer.toString()\<close>, applied by the extension to one chunk at a time.

  \<open>spawn cmd args input\<close> is what the call \<^verbatim>\<open>spawn(cmd, args)\<close> leads to. It is
  \<open>Inr evs\<close> when the call returns a child with its three streams, \<open>evs\<close> being the
  events that child delivers once \<open>input\<close> has been written to its standard input and
  the stream has been ended; the write and the end happen in the same turn of the event
  loop as the spawn, before any event is delivered. It is \<open>Inl (e, evs)\<close> when the
  promise executor, which has no \<^verbatim>\<open>try\<close>, throws \<open>e\<close> at the call or right after it,
  before a listener is registered: the call itself throws (an argument list that is too
  long), or it returns a child without streams (no file descriptor is left for the
  pipes) and \<^verbatim>\<open>child.stdout.on\<close> throws; \<open>evs\<close> are the events such a child still
  delivers, none when there is no child.
  \<^verbatim>\<open>Uri.joinPath\<close> is taken to return: the uri of a workspace folder has a path.

  \<open>meanwhile ed\<close> is the active editor as it is when an \<^verbatim>\<open>await\<close> of the bridge
  returns, \<open>ed\<close> being the editor as it was when the bridge was called: the document is a
  live object, and the user may go on typing while the formatter runs.
\<close>

record 'b host =
  workspaceFolders :: "uri list option"
  joinPath :: "uri \<Rightarrow> string \<Rightarrow> uri"
  fsPath :: "uri \<Rightarrow> string"
  existsSync :: "string \<Rightarrow> bool"
  toString :: "'b \<Rightarrow> string"
  spawn :: "string \<Rightarrow> string list \<Rightarrow> string
              \<Rightarrow> (string \<times> 'b child_event list) + 'b child_event list"
  meanwhile :: "editor \<Rightarrow> editor"

subsection \<open>runGersemi\<close>

text \<open>
  The variables the promise executor closes over (\<open>stdout\<close>, \<open>stderr\<close>), the state of the
  promise it returns, and what it does to the host: the messages passed to
  \<^verbatim>\<open>vscode.window.showErrorMessage\<close> (\<open>shown\<close>), the calls of \<^verbatim>\<open>spawn\<close> it made, each
  with the command, the arguments and the text meant for the standard input of the child
  (\<open>spawned\<close>), and the \<^verbatim>\<open>'error'\<close> events nobody listened to (\<open>uncaught\<close>).
\<close>

record bridge =
  stdout :: string
  stderr :: string
  settled :: "string option promise"
  shown :: "string list"
  spawned :: "(string \<times> string list \<times> string) list"
  uncaught :: "string list"

text \<open>
  \<^verbatim>\<open>const folder = vscode.workspace.workspaceFolders?.[0]\<close>: \<^verbatim>\<open>undefined\<close> when there
  is no array, and when the array is empty.
\<close>

definition folder :: "'b host \<Rightarrow> uri option" where
  "folder h = (case workspaceFolders h of
                 None \<Rightarrow> None
               | Some [] \<Rightarrow> None
               | Some (f # _) \<Rightarrow> Some f)"

definition possiblePath :: "'b host \<Rightarrow> uri \<Rightarrow> string" where
  "possiblePath h f = fsPath h (joinPath h f ''.gersemirc'')"

definition configPath :: "'b host \<Rightarrow> string option" where
  "configPath h = (case folder h of
                     None \<Rightarrow> None
                   | Some f \<Rightarrow> if existsSync h (possiblePath h f)
                               then Some (possiblePath h f) else None)"

text \<open>
  \<^verbatim>\<open>const args = ['-']; if (configPath) args.push('--config', configPath)\<close>. The test
  is one of truthiness: \<^verbatim>\<open>undefined\<close> fails it, and so does the empty string.
\<close>

definition args :: "'b host \<Rightarrow> string list" where
  "args h = (case configPath h of
               None \<Rightarrow> [''-'']
             | Some p \<Rightarrow> if p \<noteq> [] then [''-''] @ [''--config'', p] else [''-''])"

text \<open>
  \<^verbatim>\<open>resolve(v)\<close>: the first call settles the promise, every later call is without effect.
\<close>

definition resolve :: "string option \<Rightarrow> bridge \<Rightarrow> bridge" where
  "resolve v st = (if settled st = Pending then st\<lparr>settled := Resolved v\<rparr> else st)"

text \<open>
  One event against the listeners the code registers: \<^verbatim>\<open>'data'\<close> on the two output
  streams and \<^verbatim>\<open>'close'\<close> on the child. \<^verbatim>\<open>'exit'\<close> has no listener and is dropped. So
  has \<^verbatim>\<open>'error'\<close>, on the child and on each of its streams, which an event emitter
  without a listener for it throws instead of dropping: it reaches the host as an uncaught
  error and none of the extension's code runs for it.
\<close>

fun on_event :: "'b host \<Rightarrow> bridge \<Rightarrow> 'b child_event \<Rightarrow> bridge" where
  "on_event h st (StdoutData d) = st\<lparr>stdout := stdout st @ toString h d\<rparr>"
| "on_event h st (StderrData d) = st\<lparr>stderr := stderr st @ toString h d\<rparr>"
| "on_event h st (Close code) =
     (if code = Some 0 then resolve (Some (stdout st)) st
      else resolve None (st\<lparr>shown := shown st @ [''gersemi failed: '' @ stderr st]\<rparr>))"
| "on_event h st (Exit code) = st"
| "on_event h st (ChildError e) = st\<lparr>uncaught := uncaught st @ [e]\<rparr>"
| "on_event h st (StreamError s e) = st\<lparr>uncaught := uncaught st @ [e]\<rparr>"

fun deliver :: "'b host \<Rightarrow> bridge \<Rightarrow> 'b child_event list \<Rightarrow> bridge" where
  "deliver h st [] = st"
| "deliver h st (ev # evs) = deliver h (on_event h st ev) evs"

text \<open>The \<^verbatim>\<open>'error'\<close> events, of the child and of its streams.\<close>

fun unhandled :: "'b child_event list \<Rightarrow> string list" where
  "unhandled [] = []"
| "unhandled (ChildError e # evs) = e # unhandled evs"
| "unhandled (StreamError s e # evs) = e # unhandled evs"
| "unhandled (_ # evs) = unhandled evs"

text \<open>
  The promise executor runs at once, inside \<^verbatim>\<open>new Promise\<close>. An exception that leaves
  it rejects the promise, and of the events that still come none finds a listener;
  otherwise the listeners are in place when the events come.
\<close>

definition runGersemi :: "'b host \<Rightarrow> string \<Rightarrow> string \<Rightarrow> bridge" where
  "runGersemi h filename input =
     (let st = \<lparr>stdout = [], stderr = [], settled = Pending, shown = [],
                spawned = [(''gersemi'', args h, input)], uncaught = []\<rparr>
      in case spawn h ''gersemi'' (args h) input of
           Inl (e, evs) \<Rightarrow> st\<lparr>settled := Rejected e, uncaught := unhandled evs\<rparr>
         | Inr evs \<Rightarrow> deliver h st evs)"

subsection \<open>What a sequence of events amounts to\<close>

fun stdout_chunks :: "'b child_event list \<Rightarrow> 'b list" where
  "stdout_chunks [] = []"
| "stdout_chunks (StdoutData d # evs) = d # stdout_chunks evs"
| "stdout_chunks (_ # evs) = stdout_chunks evs"

fun stderr_chunks :: "'b child_event list \<Rightarrow> 'b list" where
  "stderr_chunks [] = []"
| "stderr_chunks (StderrData d # evs) = d # stderr_chunks evs"
| "stderr_chunks (_ # evs) = stderr_chunks evs"

fun closes :: "'b child_event list \<Rightarrow> int option list" where
  "closes [] = []"
| "closes (Close c # evs) = c # closes evs"
| "closes (_ # evs) = closes evs"

text \<open>The code of the first \<^verbatim>\<open>'close'\<close> event, if there is one.\<close>

definition first_close :: "'b child_event list \<Rightarrow> int option option" where
  "first_close evs = (case closes evs of [] \<Rightarrow> None | c # _ \<Rightarrow> Some c)"

text \<open>
  The events that come to the listeners of the bridge: none when the executor threw
  before it registered them.
\<close>

definition child_events ::
  "(string \<times> 'b child_event list) + 'b child_event list \<Rightarrow> 'b child_event list" where
  "child_events r = (case r of Inl _ \<Rightarrow> [] | Inr evs \<Rightarrow> evs)"

definition text_of :: "'b host \<Rightarrow> 'b list \<Rightarrow> string" where
  "text_of h ds = concat (map (toString h) ds)"

subsection \<open>The editor adapter\<close>

text \<open>
  A position is represented by the offset it stands for, so \<^verbatim>\<open>positionAt\<close> only has to
  bring the offset into the document, as the host does; \<^verbatim>\<open>new vscode.Range(a, b)\<close>
  orders its two ends.
\<close>

type_synonym position = nat

definition positionAt :: "document \<Rightarrow> nat \<Rightarrow> position" where
  "positionAt doc offset = min offset (length (getText doc))"

definition Range_of :: "position \<Rightarrow> position \<Rightarrow> position \<times> position" where
  "Range_of a b = (min a b, max a b)"

record textedit =
  range_edit :: "position \<times> position"
  newText :: string

definition TextEdit_replace :: "position \<times> position \<Rightarrow> string \<Rightarrow> textedit" where
  "TextEdit_replace r t = \<lparr>range_edit = r, newText = t\<rparr>"


text \<open>
  What \<^verbatim>\<open>editor.edit\<close> does with the one \<^verbatim>\<open>builder.replace\<close> of the callback: the text
  between the two ends of the range is replaced.
\<close>

definition apply_edit :: "textedit \<Rightarrow> editor \<Rightarrow> editor" where
  "apply_edit e ed =
     ed\<lparr>document := (document ed)
          \<lparr>getText := take (fst (range_edit e)) (getText (document ed)) @ newText e
                      @ drop (snd (range_edit e)) (getText (document ed))\<rparr>\<rparr>"

text \<open>
  The callback registered for \<^verbatim>\<open>gersemi.formatDocument\<close>, given
  \<^verbatim>\<open>vscode.window.activeTextEditor\<close>. It returns the editor as the callback leaves it,
  the edits it applied and the runs of the bridge it made. The text given to the bridge
  is read before the \<^verbatim>\<open>await\<close>; the range is built inside the callback of
  \<^verbatim>\<open>editor.edit\<close>, from the document as it is after the \<^verbatim>\<open>await\<close>. While the promise
  of the bridge is pending, or if it is rejected, the callback does not get past the
  \<^verbatim>\<open>await\<close>.
\<close>

record command_run =
  editor_after :: "editor option"
  edits_applied :: "textedit list"
  bridge_runs :: "bridge list"

definition formatDocument :: "'b host \<Rightarrow> editor option \<Rightarrow> command_run" where
  "formatDocument h activeTextEditor =
     (case activeTextEditor of
        None \<Rightarrow> \<lparr>editor_after = None, edits_applied = [], bridge_runs = []\<rparr>
      | Some ed \<Rightarrow>
          (let run = runGersemi h (fileName (document ed)) (getText (document ed))
           in case settled run of
                Resolved (Some formatted) \<Rightarrow>
                  (let now = meanwhile h ed;
                       fullRange = Range_of (positionAt (document now) 0)
                         (positionAt (document now) (length (getText (document now))));
                       e = TextEdit_replace fullRange formatted
                   in \<lparr>editor_after = Some (apply_edit e now), edits_applied = [e],
                       bridge_runs = [run]\<rparr>)
              | Resolved None \<Rightarrow>
                  \<lparr>editor_after = Some (meanwhile h ed), edits_applied = [],
                   bridge_runs = [run]\<rparr>
              | _ \<Rightarrow> \<lparr>editor_after = Some ed, edits_applied = [], bridge_runs = [run]\<rparr>))"

subsection \<open>Example hosts\<close>

text \<open>
  A host with one workspace folder \<^verbatim>\<open>/ws\<close> that holds a \<^verbatim>\<open>.gersemirc\<close>, buffers that
  are their own text, a formatter whose behaviour \<open>proc\<close> is given as a function of its
  standard input, and a user who does not touch the document meanwhile.
\<close>

definition host_with :: "(string \<Rightarrow> string child_event list) \<Rightarrow> string host" where
  "host_with proc =
     \<lparr>workspaceFolders = Some [''/ws''],
      joinPath = (\<lambda>u seg. u @ ''/'' @ seg),
      fsPath = (\<lambda>u. u),
      existsSync = (\<lambda>p. p = ''/ws/.gersemirc''),
      toString = (\<lambda>d. d),
      spawn = (\<lambda>cmd as input. Inr (proc input)),
      meanwhile = (\<lambda>ed. ed)\<rparr>"

text \<open>A formatter that writes its input back in two chunks and exits with status 0.\<close>

definition echo_proc :: "string \<Rightarrow> string child_event list" where
  "echo_proc input =
     [StdoutData (take 4 input), StdoutData (drop 4 input), Exit (Some 0), Close (Some 0)]"


text \<open>A formatter that a signal ends: the codes are null.\<close>

definition killed_proc :: "string \<Rightarrow> string child_event list" where
  "killed_proc input = [StdoutData ''par'', Exit None, Close None]"




text \<open>The same host without a workspace folder.\<close>

definition no_folder_host :: "string host" where
  "no_folder_host = (host_with echo_proc)\<lparr>workspaceFolders := None\<rparr>"



text \<open>
  A host whose formatter puts \<^verbatim>\<open>project( x )\<close> right, and whose user adds a comment at
  the end of the document while it runs.
\<close>

definition typing_host :: "string host" where
  "typing_host =
     (host_with (\<lambda>input. [StdoutData ''project(x)'', Exit (Some 0), Close (Some 0)]))
       \<lparr>meanwhile := (\<lambda>ed. ed\<lparr>document := (document ed)
                             \<lparr>getText := getText (document ed) @ '' # todo''\<rparr>\<rparr>)\<rparr>"

text \<open>
  Buffers as Node.js has them, sequences of bytes. \<open>utf8_encode\<close> is the encoding of the
  characters U+0000 to U+00FF, which are the ones a \<open>char\<close> holds, and \<open>utf8_decode\<close> is
  \<^verbatim>\<open>Buffer.toString()\<close> on such bytes: a byte sequence that is not the whole encoding of
  a character gives U+FFFD for each of its bytes, which is written \<^verbatim>\<open>?\<close> here since no
  \<open>char\<close> holds it.
\<close>

fun utf8_encode :: "string \<Rightarrow> nat list" where
  "utf8_encode [] = []"
| "utf8_encode (c # cs) =
     (if of_char c < (128::nat) then [of_char c]
      else [192 + of_char c div 64, 128 + of_char c mod 64]) @ utf8_encode cs"

fun utf8_decode :: "nat list \<Rightarrow> string" where
  "utf8_decode [] = []"
| "utf8_decode [b] = (if b < 128 then [char_of b] else ''?'')"
| "utf8_decode (b # c # bs) =
     (if b < 128 then char_of b # utf8_decode (c # bs)
      else if (b = 194 \<or> b = 195) \<and> 128 \<le> c \<and> c < 192
      then char_of ((b - 192) * 64 + (c - 128)) # utf8_decode bs
      else CHR ''?'' # utf8_decode (c # bs))"

definition utf8_host :: "(string \<Rightarrow> nat list child_event list) \<Rightarrow> nat list host" where
  "utf8_host proc =
     \<lparr>workspaceFolders = None,
      joinPath = (\<lambda>u seg. u @ ''/'' @ seg),
      fsPath = (\<lambda>u. u),
      existsSync = (\<lambda>p. False),
      toString = utf8_decode,
      spawn = (\<lambda>cmd as input. Inr (proc input)),
      meanwhile = (\<lambda>ed. ed)\<rparr>"

text \<open>
  A formatter that writes the bytes of its input back unchanged and exits with status 0;
  the pipe hands the first four bytes over in one chunk and the rest in another.
\<close>

definition split_echo :: "string \<Rightarrow> nat list child_event list" where
  "split_echo input =
     [StdoutData (take 4 (utf8_encode input)), StdoutData (drop 4 (utf8_encode input)),
      Exit (Some 0), Close (Some 0)]"

subsection \<open>Properties of event delivery\<close>

lemma deliver_append: "deliver h st (xs @ ys) = deliver h (deliver h st xs) ys"
  by (induction xs arbitrary: st) simp_all

lemma resolve_fields [simp]:
  "stdout (resolve v st) = stdout st"
  "stderr (resolve v st) = stderr st"
  "shown (resolve v st) = shown st"
  "spawned (resolve v st) = spawned st"
  "uncaught (resolve v st) = uncaught st"
  by (simp_all add: resolve_def)

lemma deliver_stdout: "stdout (deliver h st evs) = stdout st @ text_of h (stdout_chunks evs)"
proof (induction evs arbitrary: st)
  case Nil
  show ?case by (simp add: text_of_def)
next
  case (Cons ev evs)
  show ?case by (cases ev) (simp_all add: Cons.IH text_of_def)
qed

lemma deliver_stderr: "stderr (deliver h st evs) = stderr st @ text_of h (stderr_chunks evs)"
proof (induction evs arbitrary: st)
  case Nil
  show ?case by (simp add: text_of_def)
next
  case (Cons ev evs)
  show ?case by (cases ev) (simp_all add: Cons.IH text_of_def)
qed

lemma deliver_spawned: "spawned (deliver h st evs) = spawned st"
proof (induction evs arbitrary: st)
  case Nil
  show ?case by simp
next
  case (Cons ev evs)
  show ?case by (cases ev) (simp_all add: Cons.IH)
qed


lemma deliver_no_close_settled: "closes evs = [] \<Longrightarrow> settled (deliver h st evs) = settled st"
proof (induction evs arbitrary: st)
  case Nil
  show ?case by simp
next
  case (Cons ev evs)
  then show ?case by (cases ev) simp_all
qed

lemma deliver_no_close_shown: "closes evs = [] \<Longrightarrow> shown (deliver h st evs) = shown st"
proof (induction evs arbitrary: st)
  case Nil
  show ?case by simp
next
  case (Cons ev evs)
  then show ?case by (cases ev) simp_all
qed

lemma deliver_settled_keeps: "settled st \<noteq> Pending \<Longrightarrow> settled (deliver h st evs) = settled st"
proof (induction evs arbitrary: st)
  case Nil
  show ?case by simp
next
  case (Cons ev evs)
  then show ?case by (cases ev) (simp_all add: resolve_def)
qed

lemma deliver_first_close:
  "settled st = Pending \<Longrightarrow> closes evs = c # cs \<Longrightarrow>
     settled (deliver h st evs) =
       (if c = Some 0 then Resolved (Some (stdout st @ text_of h (stdout_chunks (takeWhile (\<lambda>ev. ev \<noteq> Close c) evs))))
        else Resolved None)"
proof (induction evs arbitrary: st)
  case Nil
  then show ?case by simp
next
  case (Cons ev evs)
  show ?case
  proof (cases ev)
    case (StdoutData d)
    with Cons.prems have "closes evs = c # cs" and "settled (on_event h st ev) = Pending"
      by simp_all
    from Cons.IH [OF this(2) this(1)] StdoutData show ?thesis
      by (simp add: text_of_def)
  next
    case (StderrData d)
    with Cons.prems have "closes evs = c # cs" and "settled (on_event h st ev) = Pending"
      by simp_all
    from Cons.IH [OF this(2) this(1)] StderrData show ?thesis by simp
  next
    case (Exit x)
    with Cons.prems have "closes evs = c # cs" and "settled (on_event h st ev) = Pending"
      by simp_all
    from Cons.IH [OF this(2) this(1)] Exit show ?thesis by simp
  next
    case (Close x)
    with Cons.prems have "x = c" by simp
    with Close Cons.prems(1) show ?thesis
      by (simp add: deliver_settled_keeps resolve_def text_of_def)
  next
    case (ChildError e)
    with Cons.prems have "closes evs = c # cs" and "settled (on_event h st ev) = Pending"
      by simp_all
    from Cons.IH [OF this(2) this(1)] ChildError show ?thesis by simp
  next
    case (StreamError s e)
    with Cons.prems have "closes evs = c # cs" and "settled (on_event h st ev) = Pending"
      by simp_all
    from Cons.IH [OF this(2) this(1)] StreamError show ?thesis by simp
  qed
qed


subsection \<open>Properties of a run of the bridge\<close>

lemma run_spawned: "spawned (runGersemi h filename input) = [(''gersemi'', args h, input)]"
  by (simp add: runGersemi_def Let_def deliver_spawned split: sum.splits prod.splits)


lemma run_thrown:
  "spawn h ''gersemi'' (args h) input = Inl (e, evs) \<Longrightarrow>
     settled (runGersemi h filename input) = Rejected e
     \<and> shown (runGersemi h filename input) = []
     \<and> uncaught (runGersemi h filename input) = unhandled evs"
  by (simp add: runGersemi_def Let_def)

lemma run_closed_settled:
  assumes "spawn h ''gersemi'' (args h) input = Inr (evs @ [Close code])" and "closes evs = []"
  shows "settled (runGersemi h filename input) =
           (if code = Some 0 then Resolved (Some (text_of h (stdout_chunks evs))) else Resolved None)"
  using assms
  by (simp add: runGersemi_def Let_def deliver_append deliver_no_close_settled deliver_stdout
        resolve_def)

lemma run_closed_shown:
  assumes "spawn h ''gersemi'' (args h) input = Inr (evs @ [Close code])" and "closes evs = []"
  shows "shown (runGersemi h filename input) =
           (if code = Some 0 then [] else [''gersemi failed: '' @ text_of h (stderr_chunks evs)])"
  using assms
  by (simp add: runGersemi_def Let_def deliver_append deliver_no_close_shown deliver_stderr)

lemma run_child_no_close:
  "spawn h ''gersemi'' (args h) T = Inr evs \<Longrightarrow> closes evs = [] \<Longrightarrow>
     settled (runGersemi h filename T) = Pending"
  by (simp add: runGersemi_def Let_def deliver_no_close_settled)

lemma run_child_first_close:
  "spawn h ''gersemi'' (args h) T = Inr evs \<Longrightarrow> closes evs = c # cs \<Longrightarrow>
     settled (runGersemi h filename T) =
       (if c = Some 0
        then Resolved (Some (text_of h (stdout_chunks (takeWhile (\<lambda>ev. ev \<noteq> Close c) evs))))
        else Resolved None)"
  using deliver_first_close [of _ evs c cs h]
  by (simp add: runGersemi_def Let_def)


lemma full_range: "Range_of (positionAt d 0) (positionAt d (length (getText d))) = (0, length (getText d))"
  by (simp add: Range_of_def positionAt_def)

section \<open>The claims\<close>

text \<open>
  C1. The claim is that with a formatter that writes its input \<open>T\<close> back and exits with
  status 0 the bridge resolves with \<open>T\<close>. The code does not do so for every \<open>T\<close>: it
  decodes each chunk of standard output on its own (\<^verbatim>\<open>stdout += d.toString()\<close>), and a
  chunk may end inside the encoding of a character. Here \<open>T\<close> is \<^verbatim>\<open>caf\<close> followed by
  U+00E9, five bytes of which the pipe delivers four and then one; the formatter writes
  exactly the bytes of \<open>T\<close>, these decode to \<open>T\<close> as a whole, and the bridge resolves
  with a text that is not \<open>T\<close>.
\<close>

theorem echo_split_inside_character:
  "concat (stdout_chunks (split_echo (''caf'' @ [CHR 0xE9]))) = utf8_encode (''caf'' @ [CHR 0xE9])
   \<and> stdout_chunks (split_echo (''caf'' @ [CHR 0xE9])) = [[99, 97, 102, 195], [169]]
   \<and> closes (split_echo (''caf'' @ [CHR 0xE9])) = [Some 0]
   \<and> utf8_decode (utf8_encode (''caf'' @ [CHR 0xE9])) = ''caf'' @ [CHR 0xE9]
   \<and> settled (runGersemi (utf8_host split_echo) ''CMakeLists.txt'' (''caf'' @ [CHR 0xE9]))
       = Resolved (Some ''caf??'')
   \<and> settled (runGersemi (utf8_host split_echo) ''CMakeLists.txt'' (''caf'' @ [CHR 0xE9]))
       \<noteq> Resolved (Some (''caf'' @ [CHR 0xE9]))"
  by code_simp



text \<open>
  C3. The argument list given to the formatter starts with \<^verbatim>\<open>-\<close>. With a first workspace
  folder under which \<^verbatim>\<open>.gersemirc\<close> exists, it is \<^verbatim>\<open>-\<close>, \<^verbatim>\<open>--config\<close> and the path of
  that file; with no workspace folder, or no such file, it is \<^verbatim>\<open>-\<close> alone. The list
  is the one the process is spawned with. The file system is taken to have no file whose
  path is the empty string (\<^verbatim>\<open>fs.existsSync('')\<close> is false).
\<close>

theorem args_config:
  assumes "\<not> existsSync h ''''"
  shows "take 1 (args h) = [''-'']
         \<and> (workspaceFolders h = None \<or> workspaceFolders h = Some [] \<longrightarrow> args h = [''-''])
         \<and> (\<forall>f fs. workspaceFolders h = Some (f # fs) \<longrightarrow>
               args h = (if existsSync h (fsPath h (joinPath h f ''.gersemirc''))
                         then [''-'', ''--config'', fsPath h (joinPath h f ''.gersemirc'')]
                         else [''-'']))
         \<and> spawned (runGersemi h filename T) = [(''gersemi'', args h, T)]"
proof -
  have 1: "take 1 (args h) = [''-'']"
    by (simp add: args_def split: option.splits)
  have 2: "workspaceFolders h = None \<or> workspaceFolders h = Some [] \<longrightarrow> args h = [''-'']"
    by (auto simp: args_def configPath_def folder_def)
  have 3: "args h = (if existsSync h (fsPath h (joinPath h f ''.gersemirc''))
                     then [''-'', ''--config'', fsPath h (joinPath h f ''.gersemirc'')]
                     else [''-''])"
    if "workspaceFolders h = Some (f # fs)" for f fs
    using that assms by (auto simp: args_def configPath_def folder_def possiblePath_def)
  from 1 2 3 show ?thesis by (simp add: run_spawned)
qed

theorem args_config_witness:
  "\<not> existsSync (host_with echo_proc) ''''
   \<and> \<not> existsSync no_folder_host ''''
   \<and> args (host_with echo_proc) = [''-'', ''--config'', ''/ws/.gersemirc'']
   \<and> args no_folder_host = [''-'']
   \<and> args ((host_with echo_proc)\<lparr>existsSync := (\<lambda>p. False)\<rparr>) = [''-'']"
proof -
  let ?h = "host_with echo_proc"
  let ?g = "(host_with echo_proc)\<lparr>existsSync := (\<lambda>p. False)\<rparr>"
  have e1: "\<not> existsSync ?h ''''" by (simp add: host_with_def)
  have e2: "\<not> existsSync no_folder_host ''''" by (simp add: no_folder_host_def host_with_def)
  have e3: "\<not> existsSync ?g ''''" by simp
  have w1: "workspaceFolders ?h = Some [''/ws'']" by (simp add: host_with_def)
  have w2: "workspaceFolders no_folder_host = None" by (simp add: no_folder_host_def)
  have w3: "workspaceFolders ?g = Some [''/ws'']" by (simp add: host_with_def)
  have a1: "args ?h = [''-'', ''--config'', ''/ws/.gersemirc'']"
    using args_config [OF e1, of "''CMakeLists.txt''" "''project(x)''"] w1 by (simp add: host_with_def)
  have a2: "args no_folder_host = [''-'']"
    using args_config [OF e2, of "''CMakeLists.txt''" "''project(x)''"] w2 by simp
  have a3: "args ?g = [''-'']"
    using args_config [OF e3, of "''CMakeLists.txt''" "''project(x)''"] w3 by simp
  from e1 e2 a1 a2 a3 show ?thesis by simp
qed






text \<open>
  C6, as stated, fails when the document changes while the formatter runs: the range is
  built from the document as it is when the edit is made, not from the text \<open>D\<close> that was
  given to the bridge. Here \<open>D\<close> has 12 characters, the user adds 7 meanwhile, and the
  edit replaces the range from 0 to 19.
\<close>

theorem command_range_counterexample:
  "settled (runGersemi typing_host ''CMakeLists.txt'' ''project( x )'')
     = Resolved (Some ''project(x)'')
   \<and> length ''project( x )'' = 12
   \<and> edits_applied (formatDocument typing_host
        (Some \<lparr>document = \<lparr>fileName = ''CMakeLists.txt'', getText = ''project( x )''\<rparr>\<rparr>))
       = [\<lparr>range_edit = (0, 19), newText = ''project(x)''\<rparr>]
   \<and> edits_applied (formatDocument typing_host
        (Some \<lparr>document = \<lparr>fileName = ''CMakeLists.txt'', getText = ''project( x )''\<rparr>\<rparr>))
       \<noteq> [\<lparr>range_edit = (0, length ''project( x )''), newText = ''project(x)''\<rparr>]"
  by (simp add: formatDocument_def Let_def runGersemi_def typing_host_def host_with_def
        resolve_def Range_of_def positionAt_def TextEdit_replace_def)

text \<open>
  C6, amended. With an active editor whose document has text \<open>D\<close> when the command is
  invoked, when the bridge resolves with a text \<open>R\<close>, the command applies one edit that
  replaces the full range of the document as it is when the edit is made (offset 0 to the
  length of the text it has then, which is the length of \<open>D\<close> if the document did not
  change while the formatter ran) with exactly \<open>R\<close>, and the text of the document is
  \<open>R\<close> afterwards.
\<close>

theorem command_replaces_document:
  assumes "settled (runGersemi h (fileName (document ed)) (getText (document ed))) = Resolved (Some R)"
  shows "edits_applied (formatDocument h (Some ed))
           = [\<lparr>range_edit = (0, length (getText (document (meanwhile h ed)))), newText = R\<rparr>]
         \<and> map_option (\<lambda>ed'. getText (document ed')) (editor_after (formatDocument h (Some ed)))
           = Some R
         \<and> (getText (document (meanwhile h ed)) = getText (document ed) \<longrightarrow>
              edits_applied (formatDocument h (Some ed))
                = [\<lparr>range_edit = (0, length (getText (document ed))), newText = R\<rparr>])"
  using assms
  by (simp add: formatDocument_def Let_def full_range TextEdit_replace_def apply_edit_def)

theorem command_replaces_document_witness:
  "settled (runGersemi typing_host ''CMakeLists.txt'' ''project( x )'')
     = Resolved (Some ''project(x)'')
   \<and> edits_applied (formatDocument typing_host
        (Some \<lparr>document = \<lparr>fileName = ''CMakeLists.txt'', getText = ''project( x )''\<rparr>\<rparr>))
       = [\<lparr>range_edit = (0, 19), newText = ''project(x)''\<rparr>]
   \<and> map_option (\<lambda>ed'. getText (document ed'))
        (editor_after (formatDocument typing_host
           (Some \<lparr>document = \<lparr>fileName = ''CMakeLists.txt'', getText = ''project( x )''\<rparr>\<rparr>)))
       = Some ''project(x)''
   \<and> settled (runGersemi (host_with echo_proc) ''CMakeLists.txt'' ''project(x)'')
       = Resolved (Some ''project(x)'')
   \<and> getText (document (meanwhile (host_with echo_proc)
        \<lparr>document = \<lparr>fileName = ''CMakeLists.txt'', getText = ''project(x)''\<rparr>\<rparr>))
       = ''project(x)''
   \<and> edits_applied (formatDocument (host_with echo_proc)
        (Some \<lparr>document = \<lparr>fileName = ''CMakeLists.txt'', getText = ''project(x)''\<rparr>\<rparr>))
       = [\<lparr>range_edit = (0, 10), newText = ''project(x)''\<rparr>]"
proof -
  let ?ed = "\<lparr>document = \<lparr>fileName = ''CMakeLists.txt'', getText = ''project( x )''\<rparr>\<rparr>"
  let ?ee = "\<lparr>document = \<lparr>fileName = ''CMakeLists.txt'', getText = ''project(x)''\<rparr>\<rparr>"
  have ok: "settled (runGersemi typing_host ''CMakeLists.txt'' ''project( x )'')
              = Resolved (Some ''project(x)'')"
    by (simp add: runGersemi_def typing_host_def host_with_def resolve_def)
  then have ok': "settled (runGersemi typing_host (fileName (document ?ed)) (getText (document ?ed)))
               = Resolved (Some ''project(x)'')"
    by simp
  have now: "getText (document (meanwhile typing_host ?ed)) = ''project( x ) # todo''"
    by (simp add: typing_host_def host_with_def)
  have ek: "settled (runGersemi (host_with echo_proc) ''CMakeLists.txt'' ''project(x)'')
              = Resolved (Some ''project(x)'')"
    by (simp add: runGersemi_def host_with_def echo_proc_def resolve_def)
  then have ek': "settled (runGersemi (host_with echo_proc) (fileName (document ?ee))
                    (getText (document ?ee))) = Resolved (Some ''project(x)'')"
    by simp
  have same: "getText (document (meanwhile (host_with echo_proc) ?ee)) = ''project(x)''"
    by (simp add: host_with_def)
  from command_replaces_document [OF ok'] now
  have a: "edits_applied (formatDocument typing_host (Some ?ed))
             = [\<lparr>range_edit = (0, 19), newText = ''project(x)''\<rparr>]
           \<and> map_option (\<lambda>ed'. getText (document ed'))
                (editor_after (formatDocument typing_host (Some ?ed))) = Some ''project(x)''"
    by simp
  from command_replaces_document [OF ek'] same
  have b: "edits_applied (formatDocument (host_with echo_proc) (Some ?ee))
             = [\<lparr>range_edit = (0, 10), newText = ''project(x)''\<rparr>]"
    by simp
  from ok ek same a b show ?thesis by simp
qed

text \<open>
  C7. Without an active editor the command applies no edit and never calls the bridge:
  no process is spawned and no message is shown.
\<close>

theorem command_without_editor:
  "formatDocument h None = \<lparr>editor_after = None, edits_applied = [], bridge_runs = []\<rparr>
   \<and> concat (map spawned (bridge_runs (formatDocument h None))) = []
   \<and> concat (map shown (bridge_runs (formatDocument h None))) = []"
  by (simp add: formatDocument_def)

text \<open>
  C8. The file name given to the bridge has no effect: for the same host and the same
  input text, two file names give the same arguments, the same spawned process, the same
  messages and the same resolved value.
\<close>

theorem runGersemi_ignores_filename:
  "runGersemi h f1 T = runGersemi h f2 T"
  by (simp add: runGersemi_def)

text \<open>
  C9. The bridge resolves with a text (not null) exactly when the code of the child's
  first \<^verbatim>\<open>'close'\<close> event is the number 0. When the child closes with any other code, the
  null of a process ended by a signal included, the bridge resolves with null and shows
  the error message. (Where the executor threw, no \<^verbatim>\<open>'close'\<close> comes to a listener and
  the promise is not resolved at all.)
\<close>

theorem nonnull_iff_close_zero:
  "((\<exists>s. settled (runGersemi h filename T) = Resolved (Some s))
      \<longleftrightarrow> first_close (child_events (spawn h ''gersemi'' (args h) T)) = Some (Some 0))
   \<and> (\<forall>evs code. spawn h ''gersemi'' (args h) T = Inr (evs @ [Close code]) \<and> closes evs = []
         \<and> code \<noteq> Some 0 \<longrightarrow>
         settled (runGersemi h filename T) = Resolved None
         \<and> shown (runGersemi h filename T)
             = [''gersemi failed: '' @ text_of h (stderr_chunks evs)])"
proof -
  let ?sp = "spawn h ''gersemi'' (args h) T"
  let ?r = "runGersemi h filename T"
  have iff: "(\<exists>s. settled ?r = Resolved (Some s)) \<longleftrightarrow> first_close (child_events ?sp) = Some (Some 0)"
  proof (cases ?sp)
    case (Inl a)
    obtain e left where "a = (e, left)" by (cases a)
    with Inl have "?sp = Inl (e, left)" by simp
    from run_thrown [OF this, of filename] this show ?thesis
      by (simp add: child_events_def first_close_def)
  next
    case (Inr evs)
    show ?thesis
    proof (cases "closes evs")
      case Nil
      with Inr show ?thesis
        by (simp add: run_child_no_close child_events_def first_close_def)
    next
      case (Cons c cs)
      with Inr show ?thesis
        by (simp add: run_child_first_close child_events_def first_close_def)
    qed
  qed
  have other: "settled ?r = Resolved None
               \<and> shown ?r = [''gersemi failed: '' @ text_of h (stderr_chunks evs)]"
    if "?sp = Inr (evs @ [Close code])" and "closes evs = []" and "code \<noteq> Some 0" for evs code
    using run_closed_settled [OF that(1,2)] run_closed_shown [OF that(1,2)] that(3) by simp
  from iff other show ?thesis by blast
qed

theorem nonnull_iff_close_zero_witness:
  "spawn (host_with killed_proc) ''gersemi'' (args (host_with killed_proc)) ''project(x)''
     = Inr ([StdoutData ''par'', Exit None] @ [Close None])
   \<and> closes [StdoutData ''par'', Exit None] = []
   \<and> None \<noteq> Some (0::int)
   \<and> settled (runGersemi (host_with killed_proc) ''CMakeLists.txt'' ''project(x)'') = Resolved None
   \<and> shown (runGersemi (host_with killed_proc) ''CMakeLists.txt'' ''project(x)'')
       = [''gersemi failed: '']
   \<and> first_close (child_events
        (spawn (host_with echo_proc) ''gersemi'' (args (host_with echo_proc)) ''project(x)''))
       = Some (Some 0)
   \<and> (\<exists>s. settled (runGersemi (host_with echo_proc) ''CMakeLists.txt'' ''project(x)'')
       = Resolved (Some s))"
proof -
  let ?k = "host_with killed_proc"
  let ?evs = "[StdoutData ''par'', Exit None] :: string child_event list"
  have tr: "spawn ?k ''gersemi'' (args ?k) ''project(x)'' = Inr (?evs @ [Close None])"
    by (simp add: host_with_def killed_proc_def)
  have nc: "closes ?evs = []" by simp
  have err: "text_of ?k (stderr_chunks ?evs) = []" by (simp add: text_of_def)
  have fc: "first_close (child_events
              (spawn (host_with echo_proc) ''gersemi'' (args (host_with echo_proc)) ''project(x)''))
              = Some (Some 0)"
    by (simp add: first_close_def child_events_def host_with_def echo_proc_def)
  from nonnull_iff_close_zero [of ?k "''CMakeLists.txt''" "''project(x)''"] tr nc err
  have k: "settled (runGersemi ?k ''CMakeLists.txt'' ''project(x)'') = Resolved None
           \<and> shown (runGersemi ?k ''CMakeLists.txt'' ''project(x)'') = [''gersemi failed: '']"
    by simp
  from nonnull_iff_close_zero [of "host_with echo_proc" "''CMakeLists.txt''" "''project(x)''"] fc
  have e: "\<exists>s. settled (runGersemi (host_with echo_proc) ''CMakeLists.txt'' ''project(x)'')
             = Resolved (Some s)"
    by simp
  from tr nc fc k e show ?thesis by simp
qed



end
